theory Spec2Isabelle
  imports Complex_Main "HOL-Library.Sublist"
begin

section \<open>Python values: exceptions, locals, defaults\<close>

text \<open>
  An exception raised by the Python code is the left summand of the result.  The
  constructors are the exception classes the interpreter raises at the places that are
  modelled below.
\<close>

datatype py_error =
    AssertionError
  | NotImplementedError
  | IndexError
  | KeyError
  | TypeError
  | ValueError
  | UnboundLocalError
  | RuntimeError
  | AttributeError
  | ZeroDivisionError
  | StopIteration
  | DeprecationWarning

definition and_then :: "py_error + 'a \<Rightarrow> ('a \<Rightarrow> py_error + 'b) \<Rightarrow> py_error + 'b" where
  "and_then m f = (case m of Inl e \<Rightarrow> Inl e | Inr a \<Rightarrow> f a)"

text \<open>
  A local variable of a Python function is unbound until its first assignment; reading
  it before raises \<open>UnboundLocalError\<close>.
\<close>

definition read_local :: "'a option \<Rightarrow> py_error + 'a" where
  "read_local v = (case v of None \<Rightarrow> Inl UnboundLocalError | Some a \<Rightarrow> Inr a)"

text \<open>
  Modelled from the spec: \<open>default\<close> of \<open>utilities.model_util\<close> is not among the
  source files; the spec says of \<open>q_sample\<close> that the noise "defaults to standard
  Gaussian of x0's shape", so \<open>default v d\<close> is \<open>v\<close> when it is given and the freshly
  drawn \<open>d\<close> otherwise.
\<close>

definition default :: "'a option \<Rightarrow> 'a \<Rightarrow> 'a" where
  "default v d = (case v of Some a \<Rightarrow> a | None \<Rightarrow> d)"

section \<open>Tensors\<close>

text \<open>
  Floating-point numbers are modelled by the reals they stand for: rounding, overflow,
  infinities and NaN are not represented, and a division by zero or the root or
  logarithm of a negative number has the value HOL gives it.  The statements below
  that depend on such values assume betas strictly between 0 and 1, for which none
  occurs.  A tensor of shape
  \<open>(b, c, h, w)\<close> is the list of its \<open>b\<close> batch entries, each flattened to the list of
  its \<open>c * h * w\<close> scalars.  A tensor of shape \<open>(b, 1, 1, 1)\<close>, as it comes out of
  \<open>extract_into_tensor\<close>, is a list of \<open>b\<close> scalars; multiplying it with a tensor
  scales each batch entry by its scalar (\<open>bmul\<close>).  The elementwise operations are
  written for operands of one shape, which is what their callers below supply.
\<close>

type_synonym tensor = "real list list"

definition same_shape :: "tensor \<Rightarrow> tensor \<Rightarrow> bool" where
  "same_shape x y = list_all2 (\<lambda>r s. length r = length s) x y"

definition bmul :: "real list \<Rightarrow> tensor \<Rightarrow> tensor" where
  "bmul c x = map2 (\<lambda>a r. map (\<lambda>v. a * v) r) c x"

definition tadd :: "tensor \<Rightarrow> tensor \<Rightarrow> tensor" where
  "tadd x y = map2 (map2 (+)) x y"

definition tsub :: "tensor \<Rightarrow> tensor \<Rightarrow> tensor" where
  "tsub x y = map2 (map2 (-)) x y"

definition clamp :: "real \<Rightarrow> real \<Rightarrow> tensor \<Rightarrow> tensor" where
  "clamp lo hi x = map (map (\<lambda>v. min (max v lo) hi)) x"

text \<open>
  Modelled from the spec: \<open>extract_into_tensor\<close> of \<open>utilities.diffusion_util\<close> is not
  among the source files.  The spec calls every user of it "a pure function of
  schedule coefficients at \<open>t\<close>" and has the timestep "drive schedule lookups":
  \<open>extract_into_tensor a t shape\<close> gathers \<open>a[t[i]]\<close> for each batch entry \<open>i\<close> and
  returns it in a shape that broadcasts against \<open>shape\<close>.  A timestep outside the
  buffer makes the gather raise.
\<close>

definition extract_into_tensor :: "real list \<Rightarrow> nat list \<Rightarrow> py_error + real list" where
  "extract_into_tensor a t =
     (if list_all (\<lambda>i. i < length a) t then Inr (map (\<lambda>i. a ! i) t) else Inl RuntimeError)"

section \<open>\<open>DiffusionWrapper\<close>: routing the conditioning to the network\<close>

text \<open>
  The values of a conditioning bundle: a tensor, a Python tuple of tensors (a pair
  \<open>(context, attention mask)\<close> for cross-attention), or a nested mapping of such
  values.  A Python \<open>dict\<close> is the list of its items in iteration order; its keys are
  distinct.
\<close>

datatype cvalue = Tensor tensor | Tuple "tensor list"

datatype cond = Val cvalue | Dict "(string \<times> cvalue) list"

type_synonym cond_dict = "(string \<times> cond) list"

text \<open>The Python test \<open>sub in s\<close> on strings.\<close>

definition str_in :: "string \<Rightarrow> string \<Rightarrow> bool" where
  "str_in sub s = sublist sub s"

text \<open>
  The denoising network is defined outside the source files: a function of the (possibly
  concatenated) input \<open>xc\<close>, the timesteps, \<open>context_list\<close>, \<open>y\<close> and
  \<open>context_attn_mask_list\<close>.
\<close>

type_synonym network =
  "tensor \<Rightarrow> nat list \<Rightarrow> tensor list \<Rightarrow> tensor option \<Rightarrow> tensor list \<Rightarrow> tensor"

record diffusion_wrapper =
  diffusion_model :: network
  conditioning_key :: "string list"
  being_verbosed_once :: bool

text \<open>
  The loop of \<open>DiffusionWrapper.__init__\<close> over the conditioning keys.  For a key with
  none of the five substrings the code executes \<open>raise Value("The conditioning key %s
  is illegal" % key)\<close>, where \<open>Value\<close> is the name imported from
  \<open>multiprocessing.sharedctypes\<close> at the top of the file: a function that allocates a
  shared ctypes object, not an exception class.  Calling it on the message fails inside
  \<open>ctypes.sizeof\<close> with \<open>TypeError\<close>, which is what leaves the constructor.
\<close>

fun check_conditioning_keys :: "string list \<Rightarrow> py_error + unit" where
  "check_conditioning_keys [] = Inr ()"
| "check_conditioning_keys (key # keys) =
     (if str_in ''concat'' key \<or> str_in ''crossattn'' key \<or> str_in ''hybrid'' key
         \<or> str_in ''film'' key \<or> str_in ''noncond'' key
      then check_conditioning_keys keys
      else Inl TypeError)"

text \<open>
  \<open>conditioning_key\<close> is \<open>None\<close> by default; iterating over \<open>None\<close> raises
  \<open>TypeError\<close> as well.
\<close>

definition DiffusionWrapper_init :: "network \<Rightarrow> string list option \<Rightarrow> py_error + diffusion_wrapper" where
  "DiffusionWrapper_init net conditioning_key_arg =
     (case conditioning_key_arg of
        None \<Rightarrow> Inl TypeError
      | Some keys \<Rightarrow>
          and_then (check_conditioning_keys keys) (\<lambda>_.
            Inr \<lparr>diffusion_model = net, conditioning_key = keys, being_verbosed_once = False\<rparr>))"

text \<open>
  The tuple assignment \<open>context, attn_mask = v\<close>.  A tuple must have two elements; a
  tensor is unpacked along its first axis, which must have length two, each entry
  keeping its scalars in one row.
\<close>

definition unpack2 :: "cvalue \<Rightarrow> py_error + tensor \<times> tensor" where
  "unpack2 v =
     (case v of
        Tuple ts \<Rightarrow> (if length ts = 2 then Inr (ts ! 0, ts ! 1) else Inl ValueError)
      | Tensor c \<Rightarrow> (if length c = 2 then Inr ([c ! 0], [c ! 1]) else Inl ValueError))"

text \<open>\<open>len(v)\<close> of a conditioning value.\<close>

definition len_cvalue :: "cvalue \<Rightarrow> nat" where
  "len_cvalue v = (case v of Tuple ts \<Rightarrow> length ts | Tensor c \<Rightarrow> length c)"

text \<open>
  The local variables \<open>xc\<close>, \<open>y\<close>, \<open>context_list\<close>, \<open>attn_mask_list\<close>, \<open>context\<close>
  and \<open>attn_mask\<close> of \<open>forward\<close>, which its loop reads and writes.  \<open>context\<close> and
  \<open>attn_mask\<close> are unbound until the first assignment and keep their values from one
  key to the next.
\<close>

record forward_locals =
  xc_var :: tensor
  y_var :: "tensor option"
  context_list :: "tensor list"
  attn_mask_list :: "tensor list"
  context_var :: "tensor option"
  attn_mask_var :: "tensor option"

text \<open>
  The inner loop over a nested mapping: every entry whose name contains
  \<open>crossattn\<close> is assigned to \<open>context, attn_mask\<close>, each assignment replacing the
  one before.
\<close>

fun nested_crossattn :: "(string \<times> cvalue) list \<Rightarrow> forward_locals \<Rightarrow> py_error + forward_locals" where
  "nested_crossattn [] loc = Inr loc"
| "nested_crossattn ((k, v) # rest) loc =
     (if str_in ''crossattn'' k
      then and_then (unpack2 v) (\<lambda>(c, m).
             nested_crossattn rest (loc\<lparr>context_var := Some c, attn_mask_var := Some m\<rparr>))
      else nested_crossattn rest loc)"

text \<open>
  The loop of \<open>forward\<close> over the keys of \<open>cond_dict\<close>.  \<open>unsqueeze(1)\<close> and
  \<open>squeeze(1)\<close> do not change the scalars of a batch entry, and concatenating along the
  channel axis or the last axis of a two-axis tensor appends the entries' scalars.
  \<open>unsqueeze\<close> and \<open>squeeze\<close> are methods of tensors only.
\<close>

fun forward_loop :: "tensor \<Rightarrow> cond_dict \<Rightarrow> forward_locals \<Rightarrow> py_error + forward_locals" where
  "forward_loop x [] loc = Inr loc"
| "forward_loop x ((key, val) # rest) loc =
     (if str_in ''concat'' key then
        (case val of
           Val (Tensor c) \<Rightarrow> forward_loop x rest (loc\<lparr>xc_var := map2 (@) x c\<rparr>)
         | _ \<Rightarrow> Inl AttributeError)
      else if str_in ''film'' key then
        (case val of
           Val (Tensor c) \<Rightarrow>
             (case y_var loc of
                None \<Rightarrow> forward_loop x rest (loc\<lparr>y_var := Some c\<rparr>)
              | Some y0 \<Rightarrow> forward_loop x rest (loc\<lparr>y_var := Some (map2 (@) y0 c)\<rparr>))
         | _ \<Rightarrow> Inl AttributeError)
      else if str_in ''crossattn'' key then
        and_then
          (case val of
             Dict d \<Rightarrow> nested_crossattn d loc
           | Val v \<Rightarrow>
               if len_cvalue v \<noteq> 2 then Inl AssertionError
               else and_then (unpack2 v) (\<lambda>(c, m).
                      Inr (loc\<lparr>context_var := Some c, attn_mask_var := Some m\<rparr>)))
          (\<lambda>loc.
             and_then (read_local (context_var loc)) (\<lambda>c.
             and_then (read_local (attn_mask_var loc)) (\<lambda>m.
               forward_loop x rest
                 (loc\<lparr>context_list := context_list loc @ [c],
                      attn_mask_list := attn_mask_list loc @ [m]\<rparr>))))
      else if str_in ''noncond'' key then forward_loop x rest loc
      else Inl NotImplementedError)"

definition forward_args :: "tensor \<Rightarrow> cond_dict \<Rightarrow> py_error + forward_locals" where
  "forward_args x cond_dict =
     forward_loop x cond_dict
       \<lparr>xc_var = x, y_var = None, context_list = [], attn_mask_list = [],
        context_var = None, attn_mask_var = None\<rparr>"

definition forward :: "diffusion_wrapper \<Rightarrow> tensor \<Rightarrow> nat list \<Rightarrow> cond_dict \<Rightarrow> py_error + tensor" where
  "forward self x t cond_dict =
     and_then (forward_args x cond_dict) (\<lambda>loc.
       Inr (diffusion_model self (xc_var loc) t (context_list loc) (y_var loc) (attn_mask_list loc)))"

section \<open>The noise schedule of \<open>DDPM\<close>\<close>

text \<open>
  The fields of \<open>DDPM\<close> that the modelled methods read: configuration, the buffers that
  \<open>register_schedule\<close> registers, and the wrapped denoiser \<open>self.model\<close>.
\<close>

record ddpm =
  parameterization :: string
  v_posterior :: real
  clip_denoised :: bool
  log_every_t :: nat
  channels :: nat
  latent_t_size :: nat
  latent_f_size :: nat
  model :: diffusion_wrapper
  num_timesteps :: nat
  linear_start :: real
  linear_end :: real
  betas :: "real list"
  alphas_cumprod :: "real list"
  alphas_cumprod_prev :: "real list"
  sqrt_alphas_cumprod :: "real list"
  sqrt_one_minus_alphas_cumprod :: "real list"
  log_one_minus_alphas_cumprod :: "real list"
  sqrt_recip_alphas_cumprod :: "real list"
  sqrt_recipm1_alphas_cumprod :: "real list"
  posterior_variance :: "real list"
  posterior_log_variance_clipped :: "real list"
  posterior_mean_coef1 :: "real list"
  posterior_mean_coef2 :: "real list"
  lvlb_weights :: "real list"
  loss_type :: string
  l_simple_weight :: real
  original_elbo_weight :: real
  learn_logvar :: bool
  logvar :: "real list"
  training :: bool

text \<open>\<open>np.cumprod\<close>: the running products of a vector.\<close>

fun cumprod_from :: "real \<Rightarrow> real list \<Rightarrow> real list" where
  "cumprod_from acc [] = []"
| "cumprod_from acc (x # xs) = (acc * x) # cumprod_from (acc * x) xs"

definition cumprod :: "real list \<Rightarrow> real list" where
  "cumprod xs = cumprod_from 1 xs"

text \<open>
  An elementwise numpy expression over vectors of length \<open>n\<close> is the vector of its
  values at the indices below \<open>n\<close>.
\<close>

definition vec :: "nat \<Rightarrow> (nat \<Rightarrow> real) \<Rightarrow> real list" where
  "vec n f = map f [0..<n]"

text \<open>
  \<open>torch.isnan\<close>: a real is never NaN, so the closing assertion of
  \<open>register_schedule\<close>, that not all weights are NaN, can only fail here on a tensor
  without entries.
\<close>

definition isnan :: "real \<Rightarrow> bool" where
  "isnan x = False"

text \<open>
  The first half of \<open>register_schedule\<close>: every buffer up to \<open>posterior_mean_coef2\<close>.
  \<open>given_betas\<close> is the optional argument; \<open>made_betas\<close> is what \<open>make_beta_schedule\<close>
  (defined outside the source files) returns for the other arguments.
\<close>

definition register_buffers ::
  "'a ddpm_scheme \<Rightarrow> real list option \<Rightarrow> real list \<Rightarrow> real \<Rightarrow> real \<Rightarrow> 'a ddpm_scheme" where
  "register_buffers self given_betas made_betas lin_start lin_end =
     (let bs = (case given_betas of Some b \<Rightarrow> b | None \<Rightarrow> made_betas);
          alphas = map (\<lambda>b. 1 - b) bs;
          acp = cumprod alphas;
          acp_prev = 1 # butlast acp;
          n = length bs;
          v = v_posterior self;
          pv = vec n (\<lambda>t. (1 - v) * bs ! t * (1 - acp_prev ! t) / (1 - acp ! t) + v * bs ! t)
      in self\<lparr>
           num_timesteps := n,
           linear_start := lin_start,
           linear_end := lin_end,
           betas := bs,
           alphas_cumprod := acp,
           alphas_cumprod_prev := acp_prev,
           sqrt_alphas_cumprod := map sqrt acp,
           sqrt_one_minus_alphas_cumprod := map (\<lambda>a. sqrt (1 - a)) acp,
           log_one_minus_alphas_cumprod := map (\<lambda>a. ln (1 - a)) acp,
           sqrt_recip_alphas_cumprod := map (\<lambda>a. sqrt (1 / a)) acp,
           sqrt_recipm1_alphas_cumprod := map (\<lambda>a. sqrt (1 / a - 1)) acp,
           posterior_variance := pv,
           posterior_log_variance_clipped := map (\<lambda>p. ln (max p (1 / 10 ^ 20))) pv,
           posterior_mean_coef1 := vec n (\<lambda>t. bs ! t * sqrt (acp_prev ! t) / (1 - acp ! t)),
           posterior_mean_coef2 :=
             vec n (\<lambda>t. (1 - acp_prev ! t) * sqrt (alphas ! t) / (1 - acp ! t))\<rparr>)"

text \<open>
  \<open>register_schedule\<close> mutates \<open>self\<close> as it goes, so the model returns the object as
  the call leaves it together with the exception, if one was raised.  The assertion on
  the length of \<open>alphas_cumprod\<close> comes before the buffers are registered; the weights
  \<open>lvlb_weights\<close> are computed from the registered buffers, their first entry is
  overwritten by the second, and the final assertion rejects weights that are all NaN.
\<close>

definition register_schedule ::
  "'a ddpm_scheme \<Rightarrow> real list option \<Rightarrow> real list \<Rightarrow> real \<Rightarrow> real
     \<Rightarrow> 'a ddpm_scheme \<times> py_error option" where
  "register_schedule self given_betas made_betas lin_start lin_end =
     (let bs = (case given_betas of Some b \<Rightarrow> b | None \<Rightarrow> made_betas);
          n = length bs;
          alphas = map (\<lambda>b. 1 - b) bs
      in if length (cumprod alphas) \<noteq> n
         then (self\<lparr>num_timesteps := n, linear_start := lin_start, linear_end := lin_end\<rparr>,
               Some AssertionError)
         else
           let s = register_buffers self given_betas made_betas lin_start lin_end;
               w = (if parameterization s = ''eps''
                    then Some (vec n (\<lambda>t. (betas s ! t)\<^sup>2 /
                           (2 * posterior_variance s ! t * alphas ! t * (1 - alphas_cumprod s ! t))))
                    else if parameterization s = ''x0''
                    then Some (vec n (\<lambda>t. 0.5 * sqrt (alphas_cumprod s ! t) /
                           (2.0 * 1 - alphas_cumprod s ! t)))
                    else if parameterization s = ''v''
                    then Some (vec n (\<lambda>t. 1))
                    else None)
           in case w of
                None \<Rightarrow> (s, Some NotImplementedError)
              | Some lvlb \<Rightarrow>
                  if length lvlb \<le> 1 then (s, Some IndexError)
                  else
                    let lvlb' = lvlb[0 := lvlb ! 1];
                        s' = s\<lparr>lvlb_weights := lvlb'\<rparr>
                    in if list_all isnan lvlb' then (s', Some AssertionError) else (s', None))"

section \<open>Forward noising and its inverses\<close>

definition q_sample :: "'a ddpm_scheme \<Rightarrow> tensor \<Rightarrow> nat list \<Rightarrow> tensor option \<Rightarrow> tensor
    \<Rightarrow> py_error + tensor" where
  "q_sample self x_start t noise randn_like =
     (let noise = default noise randn_like in
      and_then (extract_into_tensor (sqrt_alphas_cumprod self) t) (\<lambda>sqrt_alpha.
      and_then (extract_into_tensor (sqrt_one_minus_alphas_cumprod self) t) (\<lambda>sqrt_one_minus_alpha.
      Inr (tadd (bmul sqrt_alpha x_start) (bmul sqrt_one_minus_alpha noise)))))"

definition predict_start_from_noise :: "'a ddpm_scheme \<Rightarrow> tensor \<Rightarrow> nat list \<Rightarrow> tensor
    \<Rightarrow> py_error + tensor" where
  "predict_start_from_noise self x_t t noise =
     and_then (extract_into_tensor (sqrt_recip_alphas_cumprod self) t) (\<lambda>sqrt_recip.
     and_then (extract_into_tensor (sqrt_recipm1_alphas_cumprod self) t) (\<lambda>sqrt_recipm1.
     Inr (tsub (bmul sqrt_recip x_t) (bmul sqrt_recipm1 noise))))"

definition predict_start_from_z_and_v :: "'a ddpm_scheme \<Rightarrow> tensor \<Rightarrow> nat list \<Rightarrow> tensor
    \<Rightarrow> py_error + tensor" where
  "predict_start_from_z_and_v self x_t t v =
     and_then (extract_into_tensor (sqrt_alphas_cumprod self) t) (\<lambda>sqrt_alpha.
     and_then (extract_into_tensor (sqrt_one_minus_alphas_cumprod self) t) (\<lambda>sqrt_one_minus_alpha.
     Inr (tsub (bmul sqrt_alpha x_t) (bmul sqrt_one_minus_alpha v))))"

definition predict_eps_from_z_and_v :: "'a ddpm_scheme \<Rightarrow> tensor \<Rightarrow> nat list \<Rightarrow> tensor
    \<Rightarrow> py_error + tensor" where
  "predict_eps_from_z_and_v self x_t t v =
     and_then (extract_into_tensor (sqrt_alphas_cumprod self) t) (\<lambda>sqrt_alpha.
     and_then (extract_into_tensor (sqrt_one_minus_alphas_cumprod self) t) (\<lambda>sqrt_one_minus_alpha.
     Inr (tadd (bmul sqrt_alpha v) (bmul sqrt_one_minus_alpha x_t))))"

definition get_v :: "'a ddpm_scheme \<Rightarrow> tensor \<Rightarrow> tensor \<Rightarrow> nat list \<Rightarrow> py_error + tensor" where
  "get_v self x noise t =
     and_then (extract_into_tensor (sqrt_alphas_cumprod self) t) (\<lambda>sqrt_alpha.
     and_then (extract_into_tensor (sqrt_one_minus_alphas_cumprod self) t) (\<lambda>sqrt_one_minus_alpha.
     Inr (tsub (bmul sqrt_alpha noise) (bmul sqrt_one_minus_alpha x))))"

section \<open>Constructing a \<open>DDPM\<close>\<close>

text \<open>
  The arguments of \<open>DDPM.__init__\<close> that the modelled methods depend on.
  \<open>arg_unet_config\<close> stands for the network that \<open>instantiate_from_config\<close> builds
  from \<open>unet_config\<close>, and \<open>arg_made_betas\<close> for the schedule that
  \<open>make_beta_schedule\<close> returns for \<open>beta_schedule\<close>, \<open>timesteps\<close>, \<open>linear_start\<close>,
  \<open>linear_end\<close> and \<open>cosine_s\<close>; both functions are defined outside the source files.
\<close>

record ddpm_args =
  arg_unet_config :: network
  arg_sampling_rate :: "nat option"
  arg_made_betas :: "real list"
  arg_loss_type :: string
  arg_latent_t_size :: nat
  arg_latent_f_size :: nat
  arg_channels :: nat
  arg_log_every_t :: nat
  arg_clip_denoised :: bool
  arg_linear_start :: real
  arg_linear_end :: real
  arg_given_betas :: "real list option"
  arg_original_elbo_weight :: real
  arg_v_posterior :: real
  arg_l_simple_weight :: real
  arg_conditioning_key :: "string list option"
  arg_parameterization :: string
  arg_learn_logvar :: bool
  arg_logvar_init :: real

text \<open>
  The attributes that \<open>DDPM.__init__\<close> sets from its arguments; the buffers are not
  registered yet.  \<open>m\<close> is the wrapper it has built, and \<open>ext\<close> is the part of the
  object that belongs to a subclass.  A module is in training mode when it is
  constructed.
\<close>

definition DDPM_attributes :: "'b ddpm_args_scheme \<Rightarrow> diffusion_wrapper \<Rightarrow> 'a \<Rightarrow> 'a ddpm_scheme" where
  "DDPM_attributes args m ext =
     \<lparr>parameterization = arg_parameterization args,
      v_posterior = arg_v_posterior args,
      clip_denoised = arg_clip_denoised args,
      log_every_t = arg_log_every_t args,
      channels = arg_channels args,
      latent_t_size = arg_latent_t_size args,
      latent_f_size = arg_latent_f_size args,
      model = m,
      num_timesteps = 0, linear_start = 0, linear_end = 0,
      betas = [], alphas_cumprod = [], alphas_cumprod_prev = [],
      sqrt_alphas_cumprod = [], sqrt_one_minus_alphas_cumprod = [],
      log_one_minus_alphas_cumprod = [], sqrt_recip_alphas_cumprod = [],
      sqrt_recipm1_alphas_cumprod = [], posterior_variance = [],
      posterior_log_variance_clipped = [], posterior_mean_coef1 = [],
      posterior_mean_coef2 = [], lvlb_weights = [],
      loss_type = arg_loss_type args,
      l_simple_weight = arg_l_simple_weight args,
      original_elbo_weight = arg_original_elbo_weight args,
      learn_logvar = arg_learn_logvar args,
      logvar = [],
      training = True,
      \<dots> = ext\<rparr>"


section \<open>The reverse process of \<open>DDPM\<close>\<close>

definition q_posterior :: "'a ddpm_scheme \<Rightarrow> tensor \<Rightarrow> tensor \<Rightarrow> nat list
    \<Rightarrow> py_error + tensor \<times> real list \<times> real list" where
  "q_posterior self x_start x_t t =
     and_then (extract_into_tensor (posterior_mean_coef1 self) t) (\<lambda>mean_coef1.
     and_then (extract_into_tensor (posterior_mean_coef2 self) t) (\<lambda>mean_coef2.
       let posterior_mean = tadd (bmul mean_coef1 x_start) (bmul mean_coef2 x_t) in
       and_then (extract_into_tensor (posterior_variance self) t) (\<lambda>variance.
       and_then (extract_into_tensor (posterior_log_variance_clipped self) t) (\<lambda>log_variance.
         Inr (posterior_mean, variance, log_variance)))))"

text \<open>
  \<open>DDPM.p_mean_variance\<close>.  The local \<open>x_recon\<close> is assigned in the branches for
  \<open>eps\<close> and \<open>x0\<close> only; there is no \<open>else\<close>.
\<close>

definition DDPM_p_mean_variance :: "'a ddpm_scheme \<Rightarrow> tensor \<Rightarrow> nat list \<Rightarrow> bool
    \<Rightarrow> py_error + tensor \<times> real list \<times> real list" where
  "DDPM_p_mean_variance self x t clip =
     and_then (forward (model self) x t []) (\<lambda>model_out.
     and_then
       (if parameterization self = ''eps''
        then and_then (predict_start_from_noise self x t model_out) (\<lambda>r. Inr (Some r))
        else if parameterization self = ''x0'' then Inr (Some model_out)
        else Inr None) (\<lambda>x_recon.
     and_then
       (if clip then and_then (read_local x_recon) (\<lambda>r. Inr (Some (clamp (- 1) 1 r)))
        else Inr x_recon) (\<lambda>x_recon.
     and_then (read_local x_recon) (\<lambda>r. q_posterior self r x t))))"

text \<open>
  \<open>DDPM.p_sample\<close>.  \<open>noise\<close> is the tensor that \<open>noise_like\<close> draws for this step.
  The mask is reshaped to one scalar per batch entry of \<open>x\<close>, which needs as many
  timesteps as \<open>x\<close> has entries.
\<close>

definition DDPM_p_sample :: "'a ddpm_scheme \<Rightarrow> tensor \<Rightarrow> nat list \<Rightarrow> bool \<Rightarrow> tensor
    \<Rightarrow> py_error + tensor" where
  "DDPM_p_sample self x t clip noise =
     (let batch_size = length x in
      and_then (DDPM_p_mean_variance self x t clip) (\<lambda>(model_mean, _, model_log_variance).
        if length t \<noteq> batch_size then Inl RuntimeError
        else
          let nonzero_mask = map (\<lambda>i. 1 - (if i = 0 then 1 else 0)) t in
          Inr (tadd model_mean
                 (bmul (map2 (*) nonzero_mask (map (\<lambda>l. exp (0.5 * l)) model_log_variance))
                    noise))))"

text \<open>
  The loop of \<open>DDPM.p_sample_loop\<close> over \<open>reversed(range(num_timesteps))\<close>;
  \<open>noise_like i\<close> is the noise drawn in the step for timestep \<open>i\<close>.
\<close>

fun DDPM_p_sample_steps :: "'a ddpm_scheme \<Rightarrow> nat \<Rightarrow> (nat \<Rightarrow> tensor) \<Rightarrow> nat list
    \<Rightarrow> tensor \<Rightarrow> tensor list \<Rightarrow> py_error + tensor \<times> tensor list" where
  "DDPM_p_sample_steps self batch_size noise_like [] img intermediates =
     Inr (img, intermediates)"
| "DDPM_p_sample_steps self batch_size noise_like (i # rest) img intermediates =
     and_then (DDPM_p_sample self img (replicate batch_size i) (clip_denoised self) (noise_like i))
       (\<lambda>img.
          if log_every_t self = 0 then Inl ZeroDivisionError
          else DDPM_p_sample_steps self batch_size noise_like rest img
                 (if i mod log_every_t self = 0 \<or> i = num_timesteps self - 1
                  then intermediates @ [img] else intermediates))"

text \<open>
  \<open>DDPM.p_sample_loop\<close>; \<open>randn shape\<close> is the initial noise image drawn for \<open>shape\<close>.
  The intermediates are returned only when they are asked for.
\<close>

definition DDPM_p_sample_loop :: "'a ddpm_scheme \<Rightarrow> nat list \<Rightarrow> bool \<Rightarrow> (nat list \<Rightarrow> tensor)
    \<Rightarrow> (nat \<Rightarrow> tensor) \<Rightarrow> py_error + tensor \<times> tensor list option" where
  "DDPM_p_sample_loop self shape return_intermediates randn noise_like =
     (case shape of
        [] \<Rightarrow> Inl IndexError
      | batch_size # _ \<Rightarrow>
          let img = randn shape in
          and_then (DDPM_p_sample_steps self batch_size noise_like
                      (rev [0..<num_timesteps self]) img [img])
            (\<lambda>(img, intermediates).
               Inr (img, if return_intermediates then Some intermediates else None)))"

text \<open>
  \<open>DDPM.sample\<close>.  The name \<open>channels\<close> is assigned in the body, so it is a local
  variable of the function; the tuple \<open>shape\<close> reads it on the line before the
  assignment.
\<close>

definition DDPM_sample :: "'a ddpm_scheme \<Rightarrow> nat \<Rightarrow> bool \<Rightarrow> (nat list \<Rightarrow> tensor)
    \<Rightarrow> (nat \<Rightarrow> tensor) \<Rightarrow> py_error + tensor \<times> tensor list option" where
  "DDPM_sample self batch_size return_intermediates randn noise_like =
     (let channels_local = (None :: nat option) in
      and_then (read_local channels_local) (\<lambda>c.
        let shape = [batch_size, c, latent_t_size self, latent_f_size self];
            channels_local = Some (channels self)
        in DDPM_p_sample_loop self shape return_intermediates randn noise_like))"

section \<open>The separator's mask blending\<close>





section \<open>Losses\<close>





section \<open>\<open>LatentDiffusion\<close>\<close>

subsection \<open>Dictionaries and batches\<close>









subsection \<open>The object\<close>







subsection \<open>Construction\<close>








subsection \<open>Conditioning and classifier-free guidance dropout\<close>









subsection \<open>The denoiser call, the reverse step and the loss\<close>






section \<open>Example objects\<close>

text \<open>
  A network that returns its input, the arguments of a small model with two timesteps,
  and the object built from them before its schedule is registered.
\<close>

definition example_net :: network where
  "example_net inp t contexts film masks = inp"

definition example_args :: ddpm_args where
  "example_args =
     \<lparr>arg_unet_config = example_net,
      arg_sampling_rate = Some 16000,
      arg_made_betas = [1 / 4, 1 / 2],
      arg_loss_type = ''l2'',
      arg_latent_t_size = 1,
      arg_latent_f_size = 2,
      arg_channels = 1,
      arg_log_every_t = 1,
      arg_clip_denoised = True,
      arg_linear_start = 1 / 4,
      arg_linear_end = 1 / 2,
      arg_given_betas = None,
      arg_original_elbo_weight = 0,
      arg_v_posterior = 0,
      arg_l_simple_weight = 1,
      arg_conditioning_key = Some [],
      arg_parameterization = ''eps'',
      arg_learn_logvar = False,
      arg_logvar_init = 0\<rparr>"

definition example_wrapper :: diffusion_wrapper where
  "example_wrapper =
     \<lparr>diffusion_model = example_net, conditioning_key = [], being_verbosed_once = False\<rparr>"

definition example_unregistered :: ddpm where
  "example_unregistered = DDPM_attributes example_args example_wrapper ()"





section \<open>Facts about tensors and the schedule\<close>

lemma length_cumprod_from: "length (cumprod_from a xs) = length xs"
  by (induction xs arbitrary: a) simp_all

lemma length_cumprod: "length (cumprod xs) = length xs"
  by (simp add: cumprod_def length_cumprod_from)

lemma cumprod_from_bounds:
  "0 < a \<Longrightarrow> a \<le> 1 \<Longrightarrow> \<forall>x\<in>set xs. 0 < x \<and> x < 1 \<Longrightarrow>
     \<forall>y\<in>set (cumprod_from a xs). 0 < y \<and> y < 1"
proof (induction xs arbitrary: a)
  case Nil
  then show ?case by simp
next
  case (Cons x xs)
  have x: "0 < x" "x < 1" using Cons.prems by simp_all
  have pos: "0 < a * x" using Cons.prems x by simp
  have "a * x < 1 * 1" using Cons.prems x
    by (intro mult_le_less_imp_less) simp_all
  then have lt: "a * x < 1" by simp
  have "\<forall>y\<in>set (cumprod_from (a * x) xs). 0 < y \<and> y < 1"
    using Cons.IH [of "a * x"] pos lt Cons.prems by simp
  then show ?case using pos lt by simp
qed

lemma cumprod_bounds:
  "\<forall>b\<in>set bs. 0 < b \<and> b < (1::real) \<Longrightarrow>
     \<forall>y\<in>set (cumprod (map (\<lambda>b. 1 - b) bs)). 0 < y \<and> y < 1"
  unfolding cumprod_def by (rule cumprod_from_bounds) auto

lemma bmul_length: "length (bmul c x) = min (length c) (length x)"
  by (simp add: bmul_def)

lemma bmul_nth:
  "i < length c \<Longrightarrow> i < length x \<Longrightarrow> bmul c x ! i = map (\<lambda>v. c ! i * v) (x ! i)"
  by (simp add: bmul_def)

lemma tadd_length: "length (tadd x y) = min (length x) (length y)"
  by (simp add: tadd_def)

lemma tadd_nth:
  "i < length x \<Longrightarrow> i < length y \<Longrightarrow> tadd x y ! i = map2 (+) (x ! i) (y ! i)"
  by (simp add: tadd_def)

lemma tsub_length: "length (tsub x y) = min (length x) (length y)"
  by (simp add: tsub_def)

lemma tsub_nth:
  "i < length x \<Longrightarrow> i < length y \<Longrightarrow> tsub x y ! i = map2 (-) (x ! i) (y ! i)"
  by (simp add: tsub_def)

lemma same_shape_length: "same_shape x y \<Longrightarrow> length x = length y"
  by (simp add: same_shape_def list_all2_lengthD)

lemma same_shape_nth:
  "same_shape x y \<Longrightarrow> i < length x \<Longrightarrow> length (x ! i) = length (y ! i)"
  by (auto simp: same_shape_def dest: list_all2_nthD)

lemma extract_Inr:
  "\<forall>i\<in>set t. i < length a \<Longrightarrow> extract_into_tensor a t = Inr (map (\<lambda>i. a ! i) t)"
  by (simp add: extract_into_tensor_def list_all_iff)

text \<open>
  Whatever holds of the registered buffers and does not depend on \<open>lvlb_weights\<close>
  holds of the object as \<open>register_schedule\<close> leaves it.
\<close>

lemma register_schedule_fst:
  assumes "P (register_buffers self g m ls le)"
      and "\<And>s w. P s \<Longrightarrow> P (s\<lparr>lvlb_weights := w\<rparr>)"
  shows "P (fst (register_schedule self g m ls le))"
  unfolding register_schedule_def Let_def
  using assms by (simp add: length_cumprod split: option.split)

lemma registered_fields:
  "betas (fst (register_schedule self g m ls le)) = (case g of Some b \<Rightarrow> b | None \<Rightarrow> m)"
  "num_timesteps (fst (register_schedule self g m ls le)) =
     length (case g of Some b \<Rightarrow> b | None \<Rightarrow> m)"
  "alphas_cumprod (fst (register_schedule self g m ls le)) =
     cumprod (map (\<lambda>b. 1 - b) (case g of Some b \<Rightarrow> b | None \<Rightarrow> m))"
  "sqrt_alphas_cumprod (fst (register_schedule self g m ls le)) =
     map sqrt (cumprod (map (\<lambda>b. 1 - b) (case g of Some b \<Rightarrow> b | None \<Rightarrow> m)))"
  "sqrt_one_minus_alphas_cumprod (fst (register_schedule self g m ls le)) =
     map (\<lambda>a. sqrt (1 - a)) (cumprod (map (\<lambda>b. 1 - b) (case g of Some b \<Rightarrow> b | None \<Rightarrow> m)))"
  "sqrt_recip_alphas_cumprod (fst (register_schedule self g m ls le)) =
     map (\<lambda>a. sqrt (1 / a)) (cumprod (map (\<lambda>b. 1 - b) (case g of Some b \<Rightarrow> b | None \<Rightarrow> m)))"
  "sqrt_recipm1_alphas_cumprod (fst (register_schedule self g m ls le)) =
     map (\<lambda>a. sqrt (1 / a - 1)) (cumprod (map (\<lambda>b. 1 - b) (case g of Some b \<Rightarrow> b | None \<Rightarrow> m)))"
  by (rule register_schedule_fst; simp add: register_buffers_def Let_def)+

section \<open>The round trip through \<open>q_sample\<close>\<close>

lemma roundtrip_scalar:
  assumes "0 < (a::real)"
  shows "sqrt (1 / a) * (sqrt a * x + sqrt (1 - a) * n) - sqrt (1 / a - 1) * n = x"
proof -
  have 1: "sqrt (1 / a) * sqrt a = 1"
    using assms by (simp add: real_sqrt_mult [symmetric])
  have "sqrt (1 / a) * sqrt (1 - a) = sqrt ((1 / a) * (1 - a))"
    by (rule real_sqrt_mult [symmetric])
  also have "(1 / a) * (1 - a) = 1 / a - 1"
    using assms by (simp add: field_simps)
  finally have 2: "sqrt (1 / a) * sqrt (1 - a) = sqrt (1 / a - 1)" .
  have "sqrt (1 / a) * (sqrt a * x + sqrt (1 - a) * n)
      = (sqrt (1 / a) * sqrt a) * x + (sqrt (1 / a) * sqrt (1 - a)) * n"
    by (simp add: algebra_simps)
  then show ?thesis using 1 2 by simp
qed

lemma row_roundtrip:
  assumes "length n = length x" "0 < (a::real)"
  shows "map2 (-) (map (\<lambda>v. sqrt (1 / a) * v)
            (map2 (+) (map (\<lambda>v. sqrt a * v) x) (map (\<lambda>v. sqrt (1 - a) * v) n)))
          (map (\<lambda>v. sqrt (1 / a - 1) * v) n) = x"
  using assms(1)
proof (induction n x rule: list_induct2)
  case Nil
  then show ?case by simp
next
  case (Cons p ps q qs)
  then show ?case using roundtrip_scalar [OF assms(2), of q p] by simp
qed

text \<open>
  Claim C1.  Let the schedule be registered from betas that all lie strictly between 0
  and 1.  For every \<open>x0\<close>, every tensor \<open>t\<close> of timesteps below \<open>num_timesteps\<close> (one per
  batch entry) and every noise of the shape of \<open>x0\<close>, \<open>q_sample\<close> returns
  \<open>sqrt(alphas_cumprod[t]) * x0 + sqrt(1 - alphas_cumprod[t]) * noise\<close>, and
  \<open>predict_start_from_noise\<close> applied to that result with the same \<open>t\<close> and noise returns
  \<open>x0\<close>, exactly, the scalars being reals.
\<close>

theorem q_sample_roundtrip:
  assumes reg: "self = fst (register_schedule self0 given_betas made_betas ls le)"
      and valid: "\<forall>b\<in>set (betas self). 0 < b \<and> b < 1"
      and t: "length t = length x0" "\<forall>i\<in>set t. i < num_timesteps self"
      and shape: "same_shape noise x0"
  shows "q_sample self x0 t (Some noise) randn_like =
           Inr (map (\<lambda>i. map (\<lambda>j. sqrt (alphas_cumprod self ! (t ! i)) * x0 ! i ! j
                                    + sqrt (1 - alphas_cumprod self ! (t ! i)) * noise ! i ! j)
                              [0..<length (x0 ! i)]) [0..<length x0])
         \<and> and_then (q_sample self x0 t (Some noise) randn_like)
               (\<lambda>x_t. predict_start_from_noise self x_t t noise) = Inr x0"
proof -
  define bs where "bs = (case given_betas of Some b \<Rightarrow> b | None \<Rightarrow> made_betas)"
  define acp where "acp = cumprod (map (\<lambda>b. 1 - b) bs)"
  have f: "betas self = bs" "num_timesteps self = length bs" "alphas_cumprod self = acp"
    "sqrt_alphas_cumprod self = map sqrt acp"
    "sqrt_one_minus_alphas_cumprod self = map (\<lambda>a. sqrt (1 - a)) acp"
    "sqrt_recip_alphas_cumprod self = map (\<lambda>a. sqrt (1 / a)) acp"
    "sqrt_recipm1_alphas_cumprod self = map (\<lambda>a. sqrt (1 / a - 1)) acp"
    unfolding reg acp_def bs_def by (rule registered_fields)+
  have len: "length acp = length bs" by (simp add: acp_def length_cumprod)
  have tlt: "\<forall>i\<in>set t. i < length acp" using t(2) f(2) len by simp
  have pos: "0 < acp ! k" if "k < length acp" for k
    using cumprod_bounds [of bs] valid f(1) that unfolding acp_def by (metis nth_mem)
  have ln: "length noise = length x0"
    and rows: "\<And>i. i < length x0 \<Longrightarrow> length (noise ! i) = length (x0 ! i)"
    using shape same_shape_length same_shape_nth by metis+
  define sa where "sa = map (\<lambda>i. sqrt (acp ! i)) t"
  define sb where "sb = map (\<lambda>i. sqrt (1 - acp ! i)) t"
  define sr where "sr = map (\<lambda>i. sqrt (1 / acp ! i)) t"
  define sm where "sm = map (\<lambda>i. sqrt (1 / acp ! i - 1)) t"
  define xt where "xt = tadd (bmul sa x0) (bmul sb noise)"
  have e: "extract_into_tensor (map sqrt acp) t = Inr sa"
    "extract_into_tensor (map (\<lambda>a. sqrt (1 - a)) acp) t = Inr sb"
    "extract_into_tensor (map (\<lambda>a. sqrt (1 / a)) acp) t = Inr sr"
    "extract_into_tensor (map (\<lambda>a. sqrt (1 / a - 1)) acp) t = Inr sm"
    using tlt by (simp_all add: extract_Inr sa_def sb_def sr_def sm_def)
  have q: "q_sample self x0 t (Some noise) randn_like = Inr xt"
    by (simp add: q_sample_def default_def and_then_def f e xt_def)
  have lxt: "length xt = length x0"
    by (simp add: xt_def tadd_length bmul_length sa_def sb_def t(1) ln)
  have xti: "xt ! i = map2 (+) (map (\<lambda>v. sqrt (acp ! (t ! i)) * v) (x0 ! i))
                             (map (\<lambda>v. sqrt (1 - acp ! (t ! i)) * v) (noise ! i))"
    if "i < length x0" for i
    using that by (simp add: xt_def tadd_nth bmul_nth bmul_length sa_def sb_def t(1) ln)
  have form: "xt = map (\<lambda>i. map (\<lambda>j. sqrt (acp ! (t ! i)) * x0 ! i ! j
                                    + sqrt (1 - acp ! (t ! i)) * noise ! i ! j)
                              [0..<length (x0 ! i)]) [0..<length x0]"
  proof (rule nth_equalityI)
    show "length xt = length (map (\<lambda>i. map (\<lambda>j. sqrt (acp ! (t ! i)) * x0 ! i ! j
                                    + sqrt (1 - acp ! (t ! i)) * noise ! i ! j)
                              [0..<length (x0 ! i)]) [0..<length x0])"
      by (simp add: lxt)
  next
    fix i assume "i < length xt"
    then have i: "i < length x0" by (simp add: lxt)
    show "xt ! i = map (\<lambda>i. map (\<lambda>j. sqrt (acp ! (t ! i)) * x0 ! i ! j
                                    + sqrt (1 - acp ! (t ! i)) * noise ! i ! j)
                              [0..<length (x0 ! i)]) [0..<length x0] ! i"
      using i rows [OF i] by (simp add: xti [OF i]) (rule nth_equalityI; simp)
  qed
  have p: "predict_start_from_noise self xt t noise = Inr (tsub (bmul sr xt) (bmul sm noise))"
    by (simp add: predict_start_from_noise_def and_then_def f e)
  have inv: "tsub (bmul sr xt) (bmul sm noise) = x0"
  proof (rule nth_equalityI)
    show "length (tsub (bmul sr xt) (bmul sm noise)) = length x0"
      by (simp add: tsub_length bmul_length sr_def sm_def lxt t(1) ln)
  next
    fix i assume "i < length (tsub (bmul sr xt) (bmul sm noise))"
    then have i: "i < length x0"
      by (simp add: tsub_length bmul_length sr_def sm_def lxt t(1) ln)
    have "t ! i \<in> set t" using i t(1) by simp
    then have a: "0 < acp ! (t ! i)" using tlt pos by blast
    show "tsub (bmul sr xt) (bmul sm noise) ! i = x0 ! i"
      using i row_roundtrip [OF rows [OF i] a]
      by (simp add: tsub_nth bmul_nth bmul_length sr_def sm_def lxt t(1) ln xti [OF i])
  qed
  show ?thesis
    using q p inv form by (simp add: and_then_def f(3))
qed

theorem q_sample_roundtrip_witness:
  "and_then
     (q_sample (fst (register_schedule example_unregistered (Some [1 / 2, 1 / 2]) [] 0 0))
        [[1, 2]] [1] (Some [[3, 4]]) [])
     (\<lambda>x_t. predict_start_from_noise
               (fst (register_schedule example_unregistered (Some [1 / 2, 1 / 2]) [] 0 0))
               x_t [1] [[3, 4]])
   = Inr [[1, 2]]"
proof -
  let ?self = "fst (register_schedule example_unregistered (Some [1 / 2, 1 / 2]) [] 0 0)"
  have v: "\<forall>b\<in>set (betas ?self). 0 < b \<and> b < 1"
    by (simp add: registered_fields)
  have t: "length [1::nat] = length [[1, 2::real]]" "\<forall>i\<in>set [1]. i < num_timesteps ?self"
    by (simp_all add: registered_fields)
  have sh: "same_shape [[3, 4]] [[1, 2]]"
    by (simp add: same_shape_def)
  show ?thesis
    by (rule conjunct2 [OF q_sample_roundtrip [OF refl v t sh]])
qed

section \<open>The v-parameterization\<close>

lemma closed_form:
  assumes "length t = length x0" "same_shape noise x0"
  shows "tadd (bmul (map f t) x0) (bmul (map g t) noise) =
         map (\<lambda>i. map (\<lambda>j. f (t ! i) * x0 ! i ! j + g (t ! i) * noise ! i ! j)
                     [0..<length (x0 ! i)]) [0..<length x0]"
proof (rule nth_equalityI)
  have ln: "length noise = length x0" using assms(2) by (rule same_shape_length)
  show "length (tadd (bmul (map f t) x0) (bmul (map g t) noise)) =
        length (map (\<lambda>i. map (\<lambda>j. f (t ! i) * x0 ! i ! j + g (t ! i) * noise ! i ! j)
                     [0..<length (x0 ! i)]) [0..<length x0])"
    by (simp add: tadd_length bmul_length assms(1) ln)
  fix i assume "i < length (tadd (bmul (map f t) x0) (bmul (map g t) noise))"
  then have i: "i < length x0" by (simp add: tadd_length bmul_length assms(1) ln)
  have r: "length (noise ! i) = length (x0 ! i)"
    using same_shape_nth [OF assms(2)] i ln by simp
  show "tadd (bmul (map f t) x0) (bmul (map g t) noise) ! i =
        map (\<lambda>i. map (\<lambda>j. f (t ! i) * x0 ! i ! j + g (t ! i) * noise ! i ! j)
                     [0..<length (x0 ! i)]) [0..<length x0] ! i"
    using i r by (simp add: tadd_nth bmul_nth bmul_length assms(1) ln)
      (rule nth_equalityI; simp)
qed

lemma schedule_coefficients:
  assumes reg: "self = fst (register_schedule self0 given_betas made_betas ls le)"
      and valid: "\<forall>b\<in>set (betas self). 0 < b \<and> b < 1"
      and t: "\<forall>i\<in>set t. i < num_timesteps self"
  shows "\<forall>i\<in>set t. 0 < alphas_cumprod self ! i \<and> alphas_cumprod self ! i < 1"
    and "extract_into_tensor (sqrt_alphas_cumprod self) t =
           Inr (map (\<lambda>i. sqrt (alphas_cumprod self ! i)) t)"
    and "extract_into_tensor (sqrt_one_minus_alphas_cumprod self) t =
           Inr (map (\<lambda>i. sqrt (1 - alphas_cumprod self ! i)) t)"
    and "extract_into_tensor (sqrt_recip_alphas_cumprod self) t =
           Inr (map (\<lambda>i. sqrt (1 / alphas_cumprod self ! i)) t)"
    and "extract_into_tensor (sqrt_recipm1_alphas_cumprod self) t =
           Inr (map (\<lambda>i. sqrt (1 / alphas_cumprod self ! i - 1)) t)"
proof -
  define bs where "bs = (case given_betas of Some b \<Rightarrow> b | None \<Rightarrow> made_betas)"
  define acp where "acp = cumprod (map (\<lambda>b. 1 - b) bs)"
  have f: "betas self = bs" "num_timesteps self = length bs" "alphas_cumprod self = acp"
    "sqrt_alphas_cumprod self = map sqrt acp"
    "sqrt_one_minus_alphas_cumprod self = map (\<lambda>a. sqrt (1 - a)) acp"
    "sqrt_recip_alphas_cumprod self = map (\<lambda>a. sqrt (1 / a)) acp"
    "sqrt_recipm1_alphas_cumprod self = map (\<lambda>a. sqrt (1 / a - 1)) acp"
    unfolding reg acp_def bs_def by (rule registered_fields)+
  have len: "length acp = length bs" by (simp add: acp_def length_cumprod)
  have tlt: "\<forall>i\<in>set t. i < length acp" using t f(2) len by simp
  have "\<forall>y\<in>set acp. 0 < y \<and> y < 1"
    using cumprod_bounds [of bs] valid f(1) unfolding acp_def by simp
  then show "\<forall>i\<in>set t. 0 < alphas_cumprod self ! i \<and> alphas_cumprod self ! i < 1"
    using tlt f(3) by (metis nth_mem)
  show "extract_into_tensor (sqrt_alphas_cumprod self) t =
           Inr (map (\<lambda>i. sqrt (alphas_cumprod self ! i)) t)"
    "extract_into_tensor (sqrt_one_minus_alphas_cumprod self) t =
           Inr (map (\<lambda>i. sqrt (1 - alphas_cumprod self ! i)) t)"
    "extract_into_tensor (sqrt_recip_alphas_cumprod self) t =
           Inr (map (\<lambda>i. sqrt (1 / alphas_cumprod self ! i)) t)"
    "extract_into_tensor (sqrt_recipm1_alphas_cumprod self) t =
           Inr (map (\<lambda>i. sqrt (1 / alphas_cumprod self ! i - 1)) t)"
    using tlt by (simp_all add: f extract_Inr)
qed

lemma v_scalar:
  assumes "0 \<le> (a::real)" "a \<le> 1"
  shows "sqrt a * (sqrt a * x + sqrt (1 - a) * n) - sqrt (1 - a) * (sqrt a * n - sqrt (1 - a) * x) = x"
    and "sqrt a * (sqrt a * n - sqrt (1 - a) * x) + sqrt (1 - a) * (sqrt a * x + sqrt (1 - a) * n) = n"
proof -
  have 1: "sqrt a * sqrt a = a" using assms by simp
  have 2: "sqrt (1 - a) * sqrt (1 - a) = 1 - a" using assms by simp
  have "sqrt a * (sqrt a * x + sqrt (1 - a) * n) - sqrt (1 - a) * (sqrt a * n - sqrt (1 - a) * x)
      = (sqrt a * sqrt a) * x + (sqrt (1 - a) * sqrt (1 - a)) * x"
    by (simp add: algebra_simps)
  also have "\<dots> = x" unfolding 1 2 by (simp add: algebra_simps)
  finally show "sqrt a * (sqrt a * x + sqrt (1 - a) * n) - sqrt (1 - a) * (sqrt a * n - sqrt (1 - a) * x) = x" .
  have "sqrt a * (sqrt a * n - sqrt (1 - a) * x) + sqrt (1 - a) * (sqrt a * x + sqrt (1 - a) * n)
      = (sqrt a * sqrt a) * n + (sqrt (1 - a) * sqrt (1 - a)) * n"
    by (simp add: algebra_simps)
  also have "\<dots> = n" unfolding 1 2 by (simp add: algebra_simps)
  finally show "sqrt a * (sqrt a * n - sqrt (1 - a) * x) + sqrt (1 - a) * (sqrt a * x + sqrt (1 - a) * n) = n" .
qed

lemma row_v:
  assumes "length n = length x" "0 \<le> (a::real)" "a \<le> 1"
  shows "map2 (-) (map (\<lambda>v. sqrt a * v)
                     (map2 (+) (map (\<lambda>v. sqrt a * v) x) (map (\<lambda>v. sqrt (1 - a) * v) n)))
                  (map (\<lambda>v. sqrt (1 - a) * v)
                     (map2 (-) (map (\<lambda>v. sqrt a * v) n) (map (\<lambda>v. sqrt (1 - a) * v) x))) = x"
    and "map2 (+) (map (\<lambda>v. sqrt a * v)
                     (map2 (-) (map (\<lambda>v. sqrt a * v) n) (map (\<lambda>v. sqrt (1 - a) * v) x)))
                  (map (\<lambda>v. sqrt (1 - a) * v)
                     (map2 (+) (map (\<lambda>v. sqrt a * v) x) (map (\<lambda>v. sqrt (1 - a) * v) n))) = n"
  using assms(1)
proof (induction n x rule: list_induct2)
  case Nil
  { case 1 show ?case by simp }
  { case 2 show ?case by simp }
next
  case (Cons p ps q qs)
  { case 1 show ?case using Cons v_scalar(1) [OF assms(2,3), of q p] by simp }
  { case 2 show ?case using Cons v_scalar(2) [OF assms(2,3), of p q] by simp }
qed

text \<open>
  Claim C6.  Let the schedule be registered from betas that all lie strictly between 0
  and 1, let \<open>t\<close> hold one timestep below \<open>num_timesteps\<close> per batch entry and let the
  noise have the shape of \<open>x0\<close>.  With \<open>v = get_v(x0, noise, t)\<close> and
  \<open>x_t = sqrt(alphas_cumprod[t]) * x0 + sqrt(1 - alphas_cumprod[t]) * noise\<close>,
  \<open>predict_start_from_z_and_v(x_t, t, v)\<close> returns \<open>x0\<close> and
  \<open>predict_eps_from_z_and_v(x_t, t, v)\<close> returns the noise, exactly, the scalars being
  reals.
\<close>

theorem v_parameterization_loop:
  assumes reg: "self = fst (register_schedule self0 given_betas made_betas ls le)"
      and valid: "\<forall>b\<in>set (betas self). 0 < b \<and> b < 1"
      and t: "length t = length x0" "\<forall>i\<in>set t. i < num_timesteps self"
      and shape: "same_shape noise x0"
      and x_t: "x_t = map (\<lambda>i. map (\<lambda>j. sqrt (alphas_cumprod self ! (t ! i)) * x0 ! i ! j
                                      + sqrt (1 - alphas_cumprod self ! (t ! i)) * noise ! i ! j)
                                [0..<length (x0 ! i)]) [0..<length x0]"
  shows "and_then (get_v self x0 noise t) (\<lambda>v. predict_start_from_z_and_v self x_t t v) = Inr x0
       \<and> and_then (get_v self x0 noise t) (\<lambda>v. predict_eps_from_z_and_v self x_t t v) = Inr noise"
proof -
  define acp where "acp = alphas_cumprod self"
  define sa where "sa = map (\<lambda>i. sqrt (acp ! i)) t"
  define sb where "sb = map (\<lambda>i. sqrt (1 - acp ! i)) t"
  define v where "v = tsub (bmul sa noise) (bmul sb x0)"
  note c = schedule_coefficients [OF reg valid t(2)]
  have e: "extract_into_tensor (sqrt_alphas_cumprod self) t = Inr sa"
    "extract_into_tensor (sqrt_one_minus_alphas_cumprod self) t = Inr sb"
    using c(2,3) by (simp_all add: sa_def sb_def acp_def)
  have ln: "length noise = length x0" using shape by (rule same_shape_length)
  have xt: "x_t = tadd (bmul sa x0) (bmul sb noise)"
    unfolding x_t sa_def sb_def acp_def
    by (rule closed_form [OF t(1) shape, symmetric])
  have gv: "get_v self x0 noise t = Inr v"
    by (simp add: get_v_def and_then_def e v_def)
  have lv: "length v = length x0"
    by (simp add: v_def tsub_length bmul_length sa_def sb_def t(1) ln)
  have lxt: "length x_t = length x0"
    by (simp add: xt tadd_length bmul_length sa_def sb_def t(1) ln)
  have rows: "length (noise ! i) = length (x0 ! i)" if "i < length x0" for i
    using same_shape_nth [OF shape] that ln by simp
  have bounds: "0 \<le> acp ! (t ! i) \<and> acp ! (t ! i) \<le> 1" if "i < length x0" for i
  proof -
    have "t ! i \<in> set t" using that t(1) by simp
    then show ?thesis using c(1) unfolding acp_def by fastforce
  qed
  have start: "tsub (bmul sa x_t) (bmul sb v) = x0"
  proof (rule nth_equalityI)
    show "length (tsub (bmul sa x_t) (bmul sb v)) = length x0"
      by (simp add: tsub_length bmul_length sa_def sb_def lxt lv t(1))
  next
    fix i assume "i < length (tsub (bmul sa x_t) (bmul sb v))"
    then have i: "i < length x0"
      by (simp add: tsub_length bmul_length sa_def sb_def lxt lv t(1))
    show "tsub (bmul sa x_t) (bmul sb v) ! i = x0 ! i"
      using i bounds [OF i] row_v(1) [OF rows [OF i], of "acp ! (t ! i)"]
      by (simp add: tsub_nth tadd_nth bmul_nth tsub_length tadd_length bmul_length
            xt v_def sa_def sb_def t(1) ln)
  qed
  have eps: "tadd (bmul sa v) (bmul sb x_t) = noise"
  proof (rule nth_equalityI)
    show "length (tadd (bmul sa v) (bmul sb x_t)) = length noise"
      by (simp add: tadd_length bmul_length sa_def sb_def lxt lv t(1) ln)
  next
    fix i assume "i < length (tadd (bmul sa v) (bmul sb x_t))"
    then have i: "i < length x0"
      by (simp add: tadd_length bmul_length sa_def sb_def lxt lv t(1))
    show "tadd (bmul sa v) (bmul sb x_t) ! i = noise ! i"
      using i bounds [OF i] row_v(2) [OF rows [OF i], of "acp ! (t ! i)"]
      by (simp add: tsub_nth tadd_nth bmul_nth tsub_length tadd_length bmul_length
            xt v_def sa_def sb_def t(1) ln)
  qed
  show ?thesis
    using start eps
    by (simp add: gv and_then_def predict_start_from_z_and_v_def predict_eps_from_z_and_v_def e)
qed

theorem v_parameterization_loop_witness:
  "and_then
     (get_v (fst (register_schedule example_unregistered (Some [1 / 2, 1 / 2]) [] 0 0))
        [[1, 2]] [[3, 4]] [0])
     (\<lambda>v. predict_eps_from_z_and_v
             (fst (register_schedule example_unregistered (Some [1 / 2, 1 / 2]) [] 0 0))
             (map (\<lambda>i. map (\<lambda>j.
                 sqrt (alphas_cumprod
                        (fst (register_schedule example_unregistered (Some [1 / 2, 1 / 2]) [] 0 0))
                       ! ([0] ! i)) * [[1, 2]] ! i ! j
               + sqrt (1 - alphas_cumprod
                        (fst (register_schedule example_unregistered (Some [1 / 2, 1 / 2]) [] 0 0))
                       ! ([0] ! i)) * [[3, 4]] ! i ! j)
               [0..<length ([[1, 2 :: real]] ! i)]) [0..<length [[1, 2 :: real]]])
             [0] v)
   = Inr [[3, 4]]"
proof -
  let ?self = "fst (register_schedule example_unregistered (Some [1 / 2, 1 / 2]) [] 0 0)"
  have v: "\<forall>b\<in>set (betas ?self). 0 < b \<and> b < 1"
    by (simp add: registered_fields)
  have t: "length [0::nat] = length [[1, 2::real]]" "\<forall>i\<in>set [0]. i < num_timesteps ?self"
    by (simp_all add: registered_fields)
  have sh: "same_shape [[3, 4]] [[1, 2]]"
    by (simp add: same_shape_def)
  show ?thesis
    by (rule conjunct2 [OF v_parameterization_loop [OF refl v t sh refl]])
qed

section \<open>The posterior variance and its clipped logarithm\<close>






section \<open>What \<open>register_schedule\<close> rejects\<close>







section \<open>Mask blending at the extremes\<close>








section \<open>Cross-attention conditioning in \<open>DiffusionWrapper.forward\<close>\<close>

lemma nested_crossattn_none:
  "filter (\<lambda>(k, v). str_in ''crossattn'' k) d = [] \<Longrightarrow> nested_crossattn d loc = Inr loc"
  by (induction d arbitrary: loc) (auto split: if_splits)

lemma nested_crossattn_last:
  assumes "filter (\<lambda>(k, v). str_in ''crossattn'' k) d = es @ [(k', v')]"
      and "\<forall>(k, v)\<in>set es. \<exists>p. unpack2 v = Inr p"
      and "unpack2 v' = Inr (c, m)"
  shows "nested_crossattn d loc = Inr (loc\<lparr>context_var := Some c, attn_mask_var := Some m\<rparr>)"
  using assms
proof (induction d arbitrary: loc es)
  case Nil
  then show ?case by simp
next
  case (Cons e d)
  obtain k v where e: "e = (k, v)" by (cases e)
  show ?case
  proof (cases "str_in ''crossattn'' k")
    case False
    then show ?thesis using Cons e by simp
  next
    case True
    then have f: "(k, v) # filter (\<lambda>(k, v). str_in ''crossattn'' k) d = es @ [(k', v')]"
      using Cons.prems(1) e by simp
    show ?thesis
    proof (cases es)
      case Nil
      then have "filter (\<lambda>(k, v). str_in ''crossattn'' k) d = []" "v = v'" using f by simp_all
      then show ?thesis
        using True e Cons.prems(3) nested_crossattn_none by (simp add: and_then_def)
    next
      case (Cons e' es')
      then have h: "e' = (k, v)" "filter (\<lambda>(k, v). str_in ''crossattn'' k) d = es' @ [(k', v')]"
        using f by simp_all
      obtain c0 m0 where u: "unpack2 v = Inr (c0, m0)"
        using Cons.prems(2) Cons h(1) by fastforce
      have "\<forall>(k, v)\<in>set es'. \<exists>p. unpack2 v = Inr p"
        using Cons.prems(2) Cons by simp
      from Cons.IH [OF h(2) this Cons.prems(3)] show ?thesis
        using True e u by (simp add: and_then_def)
    qed
  qed
qed

text \<open>
  Claim C7, amended.  When a cross-attention key (one that contains \<open>crossattn\<close> and
  neither \<open>concat\<close> nor \<open>film\<close>) holds a nested mapping in which at least one name
  contains \<open>crossattn\<close> and every such entry unpacks into a pair, the forward pass
  appends exactly one context and one attention mask for the key: those of the last
  such entry in the mapping's iteration order.  Each list grows by one entry, not by
  the number of pairs in the nested mapping.
\<close>

theorem nested_crossattn_appends_one:
  assumes key: "\<not> str_in ''concat'' key" "\<not> str_in ''film'' key" "str_in ''crossattn'' key"
      and sel: "filter (\<lambda>(k, v). str_in ''crossattn'' k) d = es @ [(k', v')]"
      and ok: "\<forall>(k, v)\<in>set es. \<exists>p. unpack2 v = Inr p"
      and lst: "unpack2 v' = Inr (c, m)"
  shows "forward_loop x ((key, Dict d) # rest) loc =
           forward_loop x rest
             (loc\<lparr>context_var := Some c, attn_mask_var := Some m,
                  context_list := context_list loc @ [c],
                  attn_mask_list := attn_mask_list loc @ [m]\<rparr>)"
  using key nested_crossattn_last [OF sel ok lst, of loc]
  by (simp add: and_then_def read_local_def)

lemma str_in_simps:
  "str_in ''crossattn'' ''crossattn'' = True"
  "str_in ''concat'' ''crossattn'' = False"
  "str_in ''film'' ''crossattn'' = False"
  "str_in ''crossattn'' ''crossattn_a'' = True"
  "str_in ''crossattn'' ''crossattn_b'' = True"
  by (simp_all add: str_in_def sublist_code)

theorem nested_crossattn_appends_one_witness:
  "forward_loop [[0]]
     [(''crossattn'', Dict [(''crossattn_a'', Tuple [[[1]], [[1]]]),
                            (''crossattn_b'', Tuple [[[2]], [[0]]])])]
     \<lparr>xc_var = [[0]], y_var = None, context_list = [], attn_mask_list = [],
      context_var = None, attn_mask_var = None\<rparr>
   = Inr \<lparr>xc_var = [[0]], y_var = None, context_list = [[[2]]], attn_mask_list = [[[0]]],
          context_var = Some [[2]], attn_mask_var = Some [[0]]\<rparr>"
proof -
  have sel: "filter (\<lambda>(k, v). str_in ''crossattn'' k)
               [(''crossattn_a'', Tuple [[[1]], [[1]]]), (''crossattn_b'', Tuple [[[2]], [[0]]])]
             = [(''crossattn_a'', Tuple [[[1]], [[1]]])] @ [(''crossattn_b'', Tuple [[[2]], [[0]]])]"
    by (simp add: str_in_simps)
  have ok: "\<forall>(k, v)\<in>set [(''crossattn_a'', Tuple [[[1]], [[1::real]]])]. \<exists>p. unpack2 v = Inr p"
    by (simp add: unpack2_def)
  have lst: "unpack2 (Tuple [[[2]], [[0]]]) = Inr ([[2]], [[0]])"
    by (simp add: unpack2_def)
  have key: "\<not> str_in ''concat'' ''crossattn''" "\<not> str_in ''film'' ''crossattn''"
    "str_in ''crossattn'' ''crossattn''"
    by (simp_all add: str_in_simps)
  show ?thesis
    by (subst nested_crossattn_appends_one [OF key sel ok lst]) simp
qed

text \<open>
  The claim as stated: a nested mapping with two cross-attention pairs contributes one
  entry to each list, the second pair.
\<close>

theorem nested_crossattn_counterexample:
  "forward_args [[0]]
     [(''crossattn'', Dict [(''crossattn_a'', Tuple [[[1]], [[1]]]),
                            (''crossattn_b'', Tuple [[[2]], [[0]]])])]
   = Inr \<lparr>xc_var = [[0]], y_var = None, context_list = [[[2]]], attn_mask_list = [[[0]]],
          context_var = Some [[2]], attn_mask_var = Some [[0]]\<rparr>
   \<and> length [[[2 :: real]]] \<noteq>
       length [(''crossattn_a'', Tuple [[[1]], [[1]]]), (''crossattn_b'', Tuple [[[2]], [[0]]])]"
  by (simp add: forward_args_def str_in_simps and_then_def unpack2_def read_local_def)

section \<open>\<open>DDPM.sample\<close>\<close>

text \<open>
  Claim C10.  Every call of the base class's \<open>sample\<close> raises \<open>UnboundLocalError\<close>:
  the local \<open>channels\<close> is read for the shape before it is assigned, so no sampling
  happens and no latent is returned.
\<close>

theorem DDPM_sample_unbound_local:
  "DDPM_sample self batch_size return_intermediates randn noise_like = Inl UnboundLocalError"
  by (simp add: DDPM_sample_def read_local_def and_then_def)

section \<open>Validation of the conditioning keys\<close>

lemma check_conditioning_keys_iff:
  "check_conditioning_keys keys = Inr () \<longleftrightarrow>
     (\<forall>key\<in>set keys. str_in ''concat'' key \<or> str_in ''crossattn'' key \<or> str_in ''hybrid'' key
         \<or> str_in ''film'' key \<or> str_in ''noncond'' key)"
  by (induction keys) auto

lemma check_conditioning_keys_error:
  "check_conditioning_keys keys = Inl e \<Longrightarrow> e = TypeError"
  by (induction keys) (auto split: if_splits)

text \<open>
  Claim C8, at the key \<open>text\<close>, which contains none of the five substrings: the
  constructor fails, and what it raises is the \<open>TypeError\<close> of calling
  \<open>multiprocessing.sharedctypes.Value\<close> on the message, not an error about the key.
\<close>

theorem illegal_key_raises_TypeError:
  "DiffusionWrapper_init example_net (Some [''text'']) = Inl TypeError"
  by (simp add: DiffusionWrapper_init_def and_then_def str_in_def sublist_code)

section \<open>Constructed \<open>LatentDiffusion\<close> objects\<close>











section \<open>Classifier-free guidance dropout in \<open>get_input\<close>\<close>















section \<open>Parameterizations at construction, in the loss and in a sampling step\<close>










text \<open>
  In the base class the branch for \<open>v\<close> is missing altogether: \<open>x_recon\<close> stays unbound.
\<close>

lemma DDPM_p_mean_variance_v:
  assumes "parameterization self = ''v''" "forward (model self) x t [] = Inr model_out"
  shows "DDPM_p_mean_variance self x t clip = Inl UnboundLocalError"
  using assms by (simp add: DDPM_p_mean_variance_def and_then_def read_local_def)






end
